theory Spec2Isabelle
  imports Main "HOL-Library.Word" "HOL-Library.Sublist"
begin

section \<open>Go values used by the client\<close>

text \<open>
  A Go \<open>error\<close> interface value is either \<open>nil\<close> (\<open>None\<close> below) or one of:
  the package-level sentinel \<open>ErrNotFound\<close> (allocated once by
  \<open>errors.New("not found")\<close>, compared by identity); any other error value that wraps
  nothing, carrying its message (what \<open>fmt.Errorf\<close> without \<open>%w\<close> builds, and what a
  foreign leaf error looks like through the interface); or an error that wraps a cause
  (what \<open>fmt.Errorf\<close> with \<open>%w\<close> builds), carrying its whole message and the cause.
  An \<open>ErrorString\<close> with the text "not found" is still not the sentinel.
\<close>

datatype go_error =
    ErrNotFound
  | ErrorString string
  | WrapError string go_error

text \<open>The \<open>Error()\<close> method.\<close>

fun Error :: "go_error \<Rightarrow> string" where
  "Error ErrNotFound = ''not found''"
| "Error (ErrorString s) = s"
| "Error (WrapError msg cause) = msg"

text \<open>\<open>errors.Unwrap\<close> and \<open>errors.Is\<close> on non-nil errors.\<close>

fun Unwrap :: "go_error \<Rightarrow> go_error option" where
  "Unwrap (WrapError msg cause) = Some cause"
| "Unwrap e = None"

fun errors_Is :: "go_error \<Rightarrow> go_error \<Rightarrow> bool" where
  "errors_Is (WrapError msg cause) target =
     (WrapError msg cause = target \<or> errors_Is cause target)"
| "errors_Is e target = (e = target)"

text \<open>
  \<open>fmt.Errorf(prefix + "%w", err)\<close> and \<open>fmt.Errorf(prefix + "%s", s)\<close>: the two shapes of
  format string the client uses.
\<close>

definition fmt_Errorf_w :: "string \<Rightarrow> go_error \<Rightarrow> go_error" where
  "fmt_Errorf_w lead err = WrapError (lead @ Error err) err"

definition fmt_Errorf_s :: "string \<Rightarrow> string \<Rightarrow> go_error" where
  "fmt_Errorf_s lead s = ErrorString (lead @ s)"

text \<open>
  What running a function yields: the values it returns, or a run-time panic (a nil
  pointer dereference). A pointer is an \<open>option\<close>, \<open>None\<close> when it is \<open>nil\<close>; a function
  returning \<open>(*T, error)\<close> returns a pair of options.
\<close>

datatype 'a exec = Panic | Return 'a

text \<open>The two fields of \<open>http.Response\<close> that the client reads.\<close>

record http_Response =
  Status :: string
  StatusCode :: int

definition StatusNotFound :: int where
  "StatusNotFound = 404"

section \<open>Response unpacking\<close>

definition unpackResponse ::
  "'a option \<Rightarrow> http_Response option \<Rightarrow> go_error option
     \<Rightarrow> ('a option \<times> go_error option) exec" where
  "unpackResponse responseBody httpResponse err =
     (case err of
        Some e \<Rightarrow> Return (None, Some (fmt_Errorf_w ''client execution error: '' e))
      | None \<Rightarrow>
          (case httpResponse of
             None \<Rightarrow> Panic
           | Some r \<Rightarrow>
               if StatusCode r = StatusNotFound then Return (None, Some ErrNotFound)
               else if StatusCode r < 200 \<or> StatusCode r \<ge> 300 then
                 Return (None, Some (fmt_Errorf_s ''api error: status '' (Status r)))
               else if responseBody = None then Return (None, Some ErrNotFound)
               else Return (responseBody, None)))"

section \<open>Client construction\<close>

definition defaultBaseURL :: string where
  "defaultBaseURL = ''https://api.depscian.tech/v2''"

definition apiKeyHeader :: string where
  "apiKeyHeader = ''X-API-Key''"

text \<open>\<open>time.Duration\<close> is an \<open>int64\<close> count of nanoseconds.\<close>

type_synonym Duration = "64 word"

definition Second :: Duration where
  "Second = 1000000000"

text \<open>
  \<open>http.Client\<close>: its three interface-valued fields are opaque handles (\<open>None\<close> for
  \<open>nil\<close>), the timeout is a duration.
\<close>

record http_Client =
  Transport :: "nat option"
  CheckRedirect :: "nat option"
  Jar :: "nat option"
  Timeout :: Duration

text \<open>
  An outgoing request with its header map (\<open>http.Header\<close> is a map from header names to
  lists of values). \<open>Header.Set\<close> and \<open>Header.Get\<close> both pass the name through the
  standard library's canonicalisation of header names before they touch the map; that
  function is not part of this repository and is a parameter \<open>canon\<close> here. \<open>Set\<close>
  replaces whatever values the name had by the single new value; \<open>Get\<close> reads the first
  value, the empty string when there is none. Requests are those built by
  \<open>http.NewRequest\<close>, whose header map is allocated.
\<close>

type_synonym http_Header = "string \<rightharpoonup> string list"

record http_Request =
  Method :: string
  URL :: string
  Header :: http_Header

definition Header_Set :: "(string \<Rightarrow> string) \<Rightarrow> string \<Rightarrow> string \<Rightarrow> http_Header \<Rightarrow> http_Header" where
  "Header_Set canon key v h = h(canon key \<mapsto> [v])"

definition Header_Get :: "(string \<Rightarrow> string) \<Rightarrow> string \<Rightarrow> http_Header \<Rightarrow> string" where
  "Header_Get canon key h =
     (case h (canon key) of None \<Rightarrow> [] | Some [] \<Rightarrow> [] | Some (v # vs) \<Rightarrow> v)"

text \<open>
  An \<open>Option\<close> receives pointers to the HTTP client under construction and to the base
  URL and returns an error: here it takes their contents and returns the new contents
  with the error.
\<close>

type_synonym Option =
  "http_Client \<Rightarrow> string \<Rightarrow> (http_Client \<times> string \<times> go_error option) exec"

definition WithBaseURL :: "string \<Rightarrow> Option" where
  "WithBaseURL url = (\<lambda>c baseURL. Return (c, url, None))"

definition WithTimeout :: "Duration \<Rightarrow> Option" where
  "WithTimeout timeout = (\<lambda>c baseURL. Return (c\<lparr>Timeout := timeout\<rparr>, baseURL, None))"

text \<open>\<open>*c = *customClient\<close> copies the whole struct, and panics on a nil \<open>customClient\<close>.\<close>

definition WithHTTPClient :: "http_Client option \<Rightarrow> Option" where
  "WithHTTPClient customClient =
     (\<lambda>c baseURL. case customClient of
                     None \<Rightarrow> Panic
                   | Some custom \<Rightarrow> Return (custom, baseURL, None))"

text \<open>
  The request interceptor that \<open>NewClient\<close> builds: a closure over \<open>apiKey\<close> that
  mutates the request it is given and returns a nil error.
\<close>

definition authInterceptor ::
  "(string \<Rightarrow> string) \<Rightarrow> string \<Rightarrow> 'ctx \<Rightarrow> http_Request \<Rightarrow> http_Request \<times> go_error option" where
  "authInterceptor canon apiKey ctx req =
     (req\<lparr>Header := Header_Set canon apiKeyHeader apiKey (Header req)\<rparr>, None)"

text \<open>
  The loop of \<open>NewClient\<close> over its options: the first option that returns an error
  ends construction with that error wrapped; otherwise the next option runs on what the
  previous one left.
\<close>

fun NewClient_opts ::
  "Option list \<Rightarrow> http_Client \<Rightarrow> string \<Rightarrow> (go_error + http_Client \<times> string) exec" where
  "NewClient_opts [] httpClient baseURL = Return (Inr (httpClient, baseURL))"
| "NewClient_opts (opt # opts) httpClient baseURL =
     (case opt httpClient baseURL of
        Panic \<Rightarrow> Panic
      | Return (httpClient', baseURL', Some err) \<Rightarrow>
          Return (Inl (fmt_Errorf_w ''failed to apply option: '' err))
      | Return (httpClient', baseURL', None) \<Rightarrow> NewClient_opts opts httpClient' baseURL')"

text \<open>
  The \<open>Client\<close> holds the pointer to the generated client. Its ten service fields all
  point at the one \<open>common\<close> field, whose \<open>client\<close> points back at the \<open>Client\<close>; a
  service method therefore reaches \<open>s.client.internalClient\<close> of the \<open>Client\<close> it
  belongs to, and takes that \<open>Client\<close> as its receiver below.
\<close>

record 'g Client =
  internalClient :: "'g option"

text \<open>
  The generated constructor \<open>apiclient.NewClientWithResponses\<close> is outside this
  package: it is the parameter \<open>gen\<close>, given the base URL, the HTTP client and the
  request editor, and returning a pointer and an error.
\<close>

definition NewClient ::
  "(string \<Rightarrow> http_Client \<Rightarrow> ('ctx \<Rightarrow> http_Request \<Rightarrow> http_Request \<times> go_error option)
      \<Rightarrow> 'g option \<times> go_error option)
   \<Rightarrow> (string \<Rightarrow> string) \<Rightarrow> string \<Rightarrow> Option list
   \<Rightarrow> ('g Client option \<times> go_error option) exec" where
  "NewClient gen canon apiKey opts =
     (case NewClient_opts opts
             \<lparr>Transport = None, CheckRedirect = None, Jar = None, Timeout = 30 * Second\<rparr>
             defaultBaseURL of
        Panic \<Rightarrow> Panic
      | Return (Inl e) \<Rightarrow> Return (None, Some e)
      | Return (Inr (httpClient, baseURL)) \<Rightarrow>
          (case gen baseURL httpClient (authInterceptor canon apiKey) of
             (generatedClient, Some err) \<Rightarrow>
               Return (None, Some (fmt_Errorf_w ''failed to create API client: '' err))
           | (generatedClient, None) \<Rightarrow>
               Return (Some \<lparr>internalClient = generatedClient\<rparr>, None)))"

section \<open>Service facades\<close>

text \<open>
  The parameter structs of the generated client, with their fields in the order the
  facade fills them, and the response envelope, of which the facade reads the decoded
  body \<open>JSON200\<close> and the raw \<open>HTTPResponse\<close>.
\<close>

datatype GetServerAdminsV2AdminsGetParams = GetServerAdminsV2AdminsGetParams int
datatype GetFamiliesV2FamiliesGetParams = GetFamiliesV2FamiliesGetParams int
datatype GetFamilyV2FamilyGetParams = GetFamilyV2FamilyGetParams int int
datatype GetFractionsListV2FractionsGetParams = GetFractionsListV2FractionsGetParams int
datatype GetFractionMembersV2FractionGetParams = GetFractionMembersV2FractionGetParams int string
datatype GetGhettoListV2GhettoGetParams = GetGhettoListV2GhettoGetParams int
datatype GetLeadersListV2LeadersGetParams = GetLeadersListV2LeadersGetParams int
datatype GetSubleadersListV2SubleadersGetParams = GetSubleadersListV2SubleadersGetParams int
datatype GetPropertyMapWithPoiV2MapGetParams = GetPropertyMapWithPoiV2MapGetParams int
datatype GetOnlineListV2OnlineGetParams = GetOnlineListV2OnlineGetParams int
datatype FindPlayerV2PlayerFindGetParams = FindPlayerV2PlayerFindGetParams int string
datatype GetSobesListV2SobesGetParams = GetSobesListV2SobesGetParams int

record 'a Response =
  JSON200 :: "'a option"
  HTTPResponse :: "http_Response option"

text \<open>
  Each method calls one operation of the generated client, which is outside this
  package: it is the parameter \<open>call\<close>, given the generated client, the context and the
  parameters, and returning a pointer to the envelope and an error. Reading a field of a
  nil envelope panics.
\<close>

definition AdminsService_Get ::
  "('g option \<Rightarrow> 'ctx \<Rightarrow> GetServerAdminsV2AdminsGetParams \<Rightarrow> 'a Response option \<times> go_error option)
   \<Rightarrow> 'g Client \<Rightarrow> 'ctx \<Rightarrow> int \<Rightarrow> ('a option \<times> go_error option) exec" where
  "AdminsService_Get call c ctx serverID =
     (let params = GetServerAdminsV2AdminsGetParams serverID;
          (resp, err) = call (internalClient c) ctx params
      in if err \<noteq> None then Return (None, err)
         else case resp of
                None \<Rightarrow> Panic
              | Some r \<Rightarrow> unpackResponse (JSON200 r) (HTTPResponse r) err)"

definition FamiliesService_List ::
  "('g option \<Rightarrow> 'ctx \<Rightarrow> GetFamiliesV2FamiliesGetParams \<Rightarrow> 'a Response option \<times> go_error option)
   \<Rightarrow> 'g Client \<Rightarrow> 'ctx \<Rightarrow> int \<Rightarrow> ('a option \<times> go_error option) exec" where
  "FamiliesService_List call c ctx serverID =
     (let params = GetFamiliesV2FamiliesGetParams serverID;
          (resp, err) = call (internalClient c) ctx params
      in if err \<noteq> None then Return (None, err)
         else case resp of
                None \<Rightarrow> Panic
              | Some r \<Rightarrow> unpackResponse (JSON200 r) (HTTPResponse r) err)"

definition FamiliesService_Get ::
  "('g option \<Rightarrow> 'ctx \<Rightarrow> GetFamilyV2FamilyGetParams \<Rightarrow> 'a Response option \<times> go_error option)
   \<Rightarrow> 'g Client \<Rightarrow> 'ctx \<Rightarrow> int \<Rightarrow> int \<Rightarrow> ('a option \<times> go_error option) exec" where
  "FamiliesService_Get call c ctx serverID famID =
     (let params = GetFamilyV2FamilyGetParams serverID famID;
          (resp, err) = call (internalClient c) ctx params
      in if err \<noteq> None then Return (None, err)
         else case resp of
                None \<Rightarrow> Panic
              | Some r \<Rightarrow> unpackResponse (JSON200 r) (HTTPResponse r) err)"

definition FractionsService_List ::
  "('g option \<Rightarrow> 'ctx \<Rightarrow> GetFractionsListV2FractionsGetParams \<Rightarrow> 'a Response option \<times> go_error option)
   \<Rightarrow> 'g Client \<Rightarrow> 'ctx \<Rightarrow> int \<Rightarrow> ('a option \<times> go_error option) exec" where
  "FractionsService_List call c ctx serverID =
     (let params = GetFractionsListV2FractionsGetParams serverID;
          (resp, err) = call (internalClient c) ctx params
      in if err \<noteq> None then Return (None, err)
         else case resp of
                None \<Rightarrow> Panic
              | Some r \<Rightarrow> unpackResponse (JSON200 r) (HTTPResponse r) err)"

definition FractionsService_GetMembers ::
  "('g option \<Rightarrow> 'ctx \<Rightarrow> GetFractionMembersV2FractionGetParams \<Rightarrow> 'a Response option \<times> go_error option)
   \<Rightarrow> 'g Client \<Rightarrow> 'ctx \<Rightarrow> int \<Rightarrow> string \<Rightarrow> ('a option \<times> go_error option) exec" where
  "FractionsService_GetMembers call c ctx serverID fractionID =
     (let params = GetFractionMembersV2FractionGetParams serverID fractionID;
          (resp, err) = call (internalClient c) ctx params
      in if err \<noteq> None then Return (None, err)
         else case resp of
                None \<Rightarrow> Panic
              | Some r \<Rightarrow> unpackResponse (JSON200 r) (HTTPResponse r) err)"

definition GhettoService_Get ::
  "('g option \<Rightarrow> 'ctx \<Rightarrow> GetGhettoListV2GhettoGetParams \<Rightarrow> 'a Response option \<times> go_error option)
   \<Rightarrow> 'g Client \<Rightarrow> 'ctx \<Rightarrow> int \<Rightarrow> ('a option \<times> go_error option) exec" where
  "GhettoService_Get call c ctx serverID =
     (let params = GetGhettoListV2GhettoGetParams serverID;
          (resp, err) = call (internalClient c) ctx params
      in if err \<noteq> None then Return (None, err)
         else case resp of
                None \<Rightarrow> Panic
              | Some r \<Rightarrow> unpackResponse (JSON200 r) (HTTPResponse r) err)"

definition LeadershipService_GetLeaders ::
  "('g option \<Rightarrow> 'ctx \<Rightarrow> GetLeadersListV2LeadersGetParams \<Rightarrow> 'a Response option \<times> go_error option)
   \<Rightarrow> 'g Client \<Rightarrow> 'ctx \<Rightarrow> int \<Rightarrow> ('a option \<times> go_error option) exec" where
  "LeadershipService_GetLeaders call c ctx serverID =
     (let params = GetLeadersListV2LeadersGetParams serverID;
          (resp, err) = call (internalClient c) ctx params
      in if err \<noteq> None then Return (None, err)
         else case resp of
                None \<Rightarrow> Panic
              | Some r \<Rightarrow> unpackResponse (JSON200 r) (HTTPResponse r) err)"

definition LeadershipService_GetSubleaders ::
  "('g option \<Rightarrow> 'ctx \<Rightarrow> GetSubleadersListV2SubleadersGetParams \<Rightarrow> 'a Response option \<times> go_error option)
   \<Rightarrow> 'g Client \<Rightarrow> 'ctx \<Rightarrow> int \<Rightarrow> ('a option \<times> go_error option) exec" where
  "LeadershipService_GetSubleaders call c ctx serverID =
     (let params = GetSubleadersListV2SubleadersGetParams serverID;
          (resp, err) = call (internalClient c) ctx params
      in if err \<noteq> None then Return (None, err)
         else case resp of
                None \<Rightarrow> Panic
              | Some r \<Rightarrow> unpackResponse (JSON200 r) (HTTPResponse r) err)"

definition MapService_Get ::
  "('g option \<Rightarrow> 'ctx \<Rightarrow> GetPropertyMapWithPoiV2MapGetParams \<Rightarrow> 'a Response option \<times> go_error option)
   \<Rightarrow> 'g Client \<Rightarrow> 'ctx \<Rightarrow> int \<Rightarrow> ('a option \<times> go_error option) exec" where
  "MapService_Get call c ctx serverID =
     (let params = GetPropertyMapWithPoiV2MapGetParams serverID;
          (resp, err) = call (internalClient c) ctx params
      in if err \<noteq> None then Return (None, err)
         else case resp of
                None \<Rightarrow> Panic
              | Some r \<Rightarrow> unpackResponse (JSON200 r) (HTTPResponse r) err)"

definition OnlineService_Get ::
  "('g option \<Rightarrow> 'ctx \<Rightarrow> GetOnlineListV2OnlineGetParams \<Rightarrow> 'a Response option \<times> go_error option)
   \<Rightarrow> 'g Client \<Rightarrow> 'ctx \<Rightarrow> int \<Rightarrow> ('a option \<times> go_error option) exec" where
  "OnlineService_Get call c ctx serverID =
     (let params = GetOnlineListV2OnlineGetParams serverID;
          (resp, err) = call (internalClient c) ctx params
      in if err \<noteq> None then Return (None, err)
         else case resp of
                None \<Rightarrow> Panic
              | Some r \<Rightarrow> unpackResponse (JSON200 r) (HTTPResponse r) err)"

definition PlayerService_Find ::
  "('g option \<Rightarrow> 'ctx \<Rightarrow> FindPlayerV2PlayerFindGetParams \<Rightarrow> 'a Response option \<times> go_error option)
   \<Rightarrow> 'g Client \<Rightarrow> 'ctx \<Rightarrow> int \<Rightarrow> string \<Rightarrow> ('a option \<times> go_error option) exec" where
  "PlayerService_Find call c ctx serverID nickname =
     (let params = FindPlayerV2PlayerFindGetParams serverID nickname;
          (resp, err) = call (internalClient c) ctx params
      in if err \<noteq> None then Return (None, err)
         else case resp of
                None \<Rightarrow> Panic
              | Some r \<Rightarrow> unpackResponse (JSON200 r) (HTTPResponse r) err)"

definition SobesService_Get ::
  "('g option \<Rightarrow> 'ctx \<Rightarrow> GetSobesListV2SobesGetParams \<Rightarrow> 'a Response option \<times> go_error option)
   \<Rightarrow> 'g Client \<Rightarrow> 'ctx \<Rightarrow> int \<Rightarrow> ('a option \<times> go_error option) exec" where
  "SobesService_Get call c ctx serverID =
     (let params = GetSobesListV2SobesGetParams serverID;
          (resp, err) = call (internalClient c) ctx params
      in if err \<noteq> None then Return (None, err)
         else case resp of
                None \<Rightarrow> Panic
              | Some r \<Rightarrow> unpackResponse (JSON200 r) (HTTPResponse r) err)"

definition StatusService_Get ::
  "('g option \<Rightarrow> 'ctx \<Rightarrow> 'a Response option \<times> go_error option)
   \<Rightarrow> 'g Client \<Rightarrow> 'ctx \<Rightarrow> ('a option \<times> go_error option) exec" where
  "StatusService_Get call c ctx =
     (let (resp, err) = call (internalClient c) ctx
      in if err \<noteq> None then Return (None, err)
         else case resp of
                None \<Rightarrow> Panic
              | Some r \<Rightarrow> unpackResponse (JSON200 r) (HTTPResponse r) err)"

text \<open>
  An operation of the generated client that yields a given outcome whatever it is asked:
  the stand-in for the external client when a facade is run on a concrete input.
\<close>

definition endpoint_outcome :: "'r \<Rightarrow> 'g \<Rightarrow> 'ctx \<Rightarrow> 'p \<Rightarrow> 'r" where
  "endpoint_outcome out g ctx params = out"

section \<open>Properties of response unpacking\<close>

text \<open>
  The two halves of the decision order: a transport error is wrapped whatever the other
  arguments are; without one, the status code and then the body decide.
\<close>

lemma unpackResponse_transport_error:
  "unpackResponse v r (Some e) =
     Return (None, Some (WrapError (''client execution error: '' @ Error e) e))"
  by (simp add: unpackResponse_def fmt_Errorf_w_def)

lemma unpackResponse_status:
  "unpackResponse v (Some r) None =
     (if StatusCode r = 404 then Return (None, Some ErrNotFound)
      else if StatusCode r < 200 \<or> 300 \<le> StatusCode r then
        Return (None, Some (ErrorString (''api error: status '' @ Status r)))
      else if v = None then Return (None, Some ErrNotFound)
      else Return (v, None))"
  by (simp add: unpackResponse_def fmt_Errorf_s_def StatusNotFound_def)

text \<open>
  Claim C1. For every decoded body \<open>v\<close>, response \<open>r\<close> and transport error \<open>e\<close>,
  \<open>unpackResponse\<close> returns \<open>v\<close> with a nil error exactly when \<open>e\<close> is nil, the status code
  of \<open>r\<close> lies in [200, 300) and \<open>v\<close> is non-nil; in every other case it returns a nil
  value with a non-nil error. So a return without error never carries a nil value.
\<close>

theorem unpackResponse_value_iff:
  "(unpackResponse v (Some r) e = Return (v, None))
     = (e = None \<and> 200 \<le> StatusCode r \<and> StatusCode r < 300 \<and> v \<noteq> None)
   \<and> (\<not> (e = None \<and> 200 \<le> StatusCode r \<and> StatusCode r < 300 \<and> v \<noteq> None)
        \<longrightarrow> (\<exists>err. unpackResponse v (Some r) e = Return (None, Some err)))
   \<and> (\<forall>x. unpackResponse v (Some r) e = Return (x, None) \<longrightarrow> x \<noteq> None)"
proof (cases e)
  case None
  then show ?thesis by (auto simp add: unpackResponse_status)
next
  case (Some a)
  then show ?thesis by (simp add: unpackResponse_transport_error)
qed

theorem unpackResponse_value_iff_witness:
  "unpackResponse (Some (7::nat)) (Some \<lparr>Status = ''200 OK'', StatusCode = 200\<rparr>) None
     = Return (Some 7, None)
   \<and> (\<exists>err. unpackResponse (Some (7::nat))
               (Some \<lparr>Status = ''500 Internal Server Error'', StatusCode = 500\<rparr>) None
             = Return (None, Some err))"
  using unpackResponse_value_iff [of "Some (7::nat)" "\<lparr>Status = ''200 OK'', StatusCode = 200\<rparr>" None]
    unpackResponse_value_iff [of "Some (7::nat)"
      "\<lparr>Status = ''500 Internal Server Error'', StatusCode = 500\<rparr>" None]
  by simp

text \<open>
  Claim C3. With a nil transport error and status code 404, \<open>unpackResponse\<close> returns
  nil and the sentinel \<open>ErrNotFound\<close> whatever the decoded body is, nil or not: the 404
  rule comes before the check of the body. The sentinel is recognised by \<open>errors.Is\<close>.
\<close>

theorem unpackResponse_404:
  "StatusCode r = 404 \<Longrightarrow>
     unpackResponse v (Some r) None = Return (None, Some ErrNotFound)
     \<and> errors_Is ErrNotFound ErrNotFound"
  by (simp add: unpackResponse_status)

theorem unpackResponse_404_witness:
  "StatusCode \<lparr>Status = ''404 Not Found'', StatusCode = 404\<rparr> = 404
   \<and> unpackResponse (Some (1::nat)) (Some \<lparr>Status = ''404 Not Found'', StatusCode = 404\<rparr>) None
       = Return (None, Some ErrNotFound)"
  using unpackResponse_404 [of "\<lparr>Status = ''404 Not Found'', StatusCode = 404\<rparr>" "Some (1::nat)"]
  by simp

text \<open>
  Claim C4. With a nil transport error and a status code in [200, 300), a nil decoded
  body makes \<open>unpackResponse\<close> return nil and \<open>ErrNotFound\<close>: the very result of a 404
  response, from which it cannot be told apart.
\<close>

theorem unpackResponse_nil_body:
  "200 \<le> StatusCode r \<Longrightarrow> StatusCode r < 300 \<Longrightarrow>
     unpackResponse (None :: 'a option) (Some r) None = Return (None, Some ErrNotFound)
     \<and> unpackResponse (None :: 'a option) (Some r) None
         = unpackResponse (v :: 'a option) (Some (r\<lparr>StatusCode := 404\<rparr>)) None"
  by (simp add: unpackResponse_status)

theorem unpackResponse_nil_body_witness:
  "(200::int) \<le> StatusCode \<lparr>Status = ''200 OK'', StatusCode = 200\<rparr>
   \<and> StatusCode \<lparr>Status = ''200 OK'', StatusCode = 200\<rparr> < 300
   \<and> unpackResponse (None :: nat option) (Some \<lparr>Status = ''200 OK'', StatusCode = 200\<rparr>) None
       = Return (None, Some ErrNotFound)"
  using unpackResponse_nil_body
    [of "\<lparr>Status = ''200 OK'', StatusCode = 200\<rparr>" "None :: nat option"]
  by simp

text \<open>
  Claim C5. With a nil transport error and a status code outside [200, 300) other than
  404, \<open>unpackResponse\<close> returns nil and an error whose message is "api error: status "
  followed by the raw status text of the response; that error is not the sentinel
  \<open>ErrNotFound\<close>, by identity or through \<open>errors.Is\<close>.
\<close>

theorem unpackResponse_status_error:
  "StatusCode r < 200 \<or> 300 \<le> StatusCode r \<Longrightarrow> StatusCode r \<noteq> 404 \<Longrightarrow>
     \<exists>err. unpackResponse v (Some r) None = Return (None, Some err)
       \<and> Error err = ''api error: status '' @ Status r
       \<and> sublist (Status r) (Error err)
       \<and> err \<noteq> ErrNotFound
       \<and> \<not> errors_Is err ErrNotFound"
proof -
  assume outside: "StatusCode r < 200 \<or> 300 \<le> StatusCode r" and not404: "StatusCode r \<noteq> 404"
  let ?err = "ErrorString (''api error: status '' @ Status r)"
  from outside not404
  have "unpackResponse v (Some r) None = Return (None, Some ?err)"
    by (simp add: unpackResponse_status)
  moreover have "Error ?err = ''api error: status '' @ Status r"
    by simp
  moreover have "sublist (Status r) (Error ?err)"
    unfolding Error.simps by (rule suffix_imp_sublist) (rule suffixI, rule refl)
  moreover have "?err \<noteq> ErrNotFound" and "\<not> errors_Is ?err ErrNotFound"
    by simp_all
  ultimately show ?thesis by blast
qed

theorem unpackResponse_status_error_witness:
  "(300::int) \<le> StatusCode \<lparr>Status = ''500 Internal Server Error'', StatusCode = 500\<rparr>
   \<and> StatusCode \<lparr>Status = ''500 Internal Server Error'', StatusCode = 500\<rparr> \<noteq> 404
   \<and> (\<exists>err. unpackResponse (Some (1::nat))
               (Some \<lparr>Status = ''500 Internal Server Error'', StatusCode = 500\<rparr>) None
             = Return (None, Some err)
        \<and> Error err = ''api error: status 500 Internal Server Error''
        \<and> err \<noteq> ErrNotFound)"
  using unpackResponse_status_error
    [of "\<lparr>Status = ''500 Internal Server Error'', StatusCode = 500\<rparr>" "Some (1::nat)"]
  by auto

text \<open>
  Claim C10. With a non-nil transport error \<open>unpackResponse\<close> returns the wrapped error
  without reading the response: a nil response gives the same result as any other, and
  no panic. The call panics exactly when the response and the transport error are both
  nil, so a response is needed only when the transport error is nil.
\<close>

theorem unpackResponse_nil_response:
  "unpackResponse v None (Some e)
     = Return (None, Some (WrapError (''client execution error: '' @ Error e) e))
   \<and> unpackResponse v r (Some e) = unpackResponse v None (Some e)
   \<and> (unpackResponse v r e' = Panic) = (r = None \<and> e' = None)"
proof -
  have "(unpackResponse v r e' = Panic) = (r = None \<and> e' = None)"
  proof (cases e')
    case None
    then show ?thesis
      by (cases r) (simp_all add: unpackResponse_status, simp add: unpackResponse_def)
  next
    case (Some a)
    then show ?thesis by (simp add: unpackResponse_transport_error)
  qed
  then show ?thesis by (simp add: unpackResponse_transport_error)
qed

section \<open>Properties of client construction\<close>

text \<open>
  Running a list of options followed by another is running the first list and, when
  none of its options failed or panicked, the second on what the first left.
\<close>

lemma NewClient_opts_append:
  "NewClient_opts (xs @ ys) c u =
     (case NewClient_opts xs c u of
        Return (Inr (c', u')) \<Rightarrow> NewClient_opts ys c' u'
      | other \<Rightarrow> other)"
proof (induction xs arbitrary: c u)
  case Nil
  show ?case by simp
next
  case (Cons opt xs)
  show ?case
  proof (cases "opt c u")
    case Panic
    then show ?thesis by simp
  next
    case (Return out)
    obtain c' u' err where out: "out = (c', u', err)"
      by (cases out) auto
    show ?thesis
      using Return out Cons.IH [of c' u'] by (cases err) simp_all
  qed
qed

text \<open>
  Claim C6. Options are applied in the order given, each on what the previous ones
  left, so a later option overrides an earlier one on the same field: the second of two
  timeouts and the second of two base URLs win. \<open>WithTimeout d\<close> followed by
  \<open>WithHTTPClient custom\<close> leaves \<open>custom\<close> as it is, with its own timeout and not \<open>d\<close>:
  the generated constructor receives \<open>custom\<close>, exactly as if \<open>WithTimeout d\<close> had not been
  passed. The client is built from what the options left: after two base URLs the
  generated constructor receives the second, after two timeouts an HTTP client with the
  second, and after a base URL, a timeout, a custom client and another base URL it
  receives the custom client and the last base URL.
\<close>

theorem options_in_order:
  "NewClient_opts (xs @ ys) c u =
     (case NewClient_opts xs c u of
        Return (Inr (c', u')) \<Rightarrow> NewClient_opts ys c' u'
      | other \<Rightarrow> other)
   \<and> NewClient_opts [WithTimeout d1, WithTimeout d2] c u = Return (Inr (c\<lparr>Timeout := d2\<rparr>, u))
   \<and> NewClient_opts [WithBaseURL u1, WithBaseURL u2] c u = Return (Inr (c, u2))
   \<and> NewClient_opts [WithTimeout d, WithHTTPClient (Some custom)] c u = Return (Inr (custom, u))
   \<and> NewClient gen canon apiKey [WithTimeout d, WithHTTPClient (Some custom)]
       = NewClient gen canon apiKey [WithHTTPClient (Some custom)]
   \<and> NewClient gen canon apiKey [WithTimeout d, WithHTTPClient (Some custom)]
       = (case gen defaultBaseURL custom (authInterceptor canon apiKey) of
            (g, Some err) \<Rightarrow>
              Return (None, Some (fmt_Errorf_w ''failed to create API client: '' err))
          | (g, None) \<Rightarrow> Return (Some \<lparr>internalClient = g\<rparr>, None))
   \<and> NewClient gen canon apiKey [WithBaseURL u1, WithBaseURL u2]
       = (case gen u2
                 \<lparr>Transport = None, CheckRedirect = None, Jar = None, Timeout = 30 * Second\<rparr>
                 (authInterceptor canon apiKey) of
            (g, Some err) \<Rightarrow>
              Return (None, Some (fmt_Errorf_w ''failed to create API client: '' err))
          | (g, None) \<Rightarrow> Return (Some \<lparr>internalClient = g\<rparr>, None))
   \<and> NewClient gen canon apiKey [WithTimeout d1, WithTimeout d2]
       = (case gen defaultBaseURL
                 \<lparr>Transport = None, CheckRedirect = None, Jar = None, Timeout = d2\<rparr>
                 (authInterceptor canon apiKey) of
            (g, Some err) \<Rightarrow>
              Return (None, Some (fmt_Errorf_w ''failed to create API client: '' err))
          | (g, None) \<Rightarrow> Return (Some \<lparr>internalClient = g\<rparr>, None))
   \<and> NewClient gen canon apiKey
         [WithBaseURL u1, WithTimeout d, WithHTTPClient (Some custom), WithBaseURL u2]
       = (case gen u2 custom (authInterceptor canon apiKey) of
            (g, Some err) \<Rightarrow>
              Return (None, Some (fmt_Errorf_w ''failed to create API client: '' err))
          | (g, None) \<Rightarrow> Return (Some \<lparr>internalClient = g\<rparr>, None))"
proof -
  have opts: "NewClient_opts (xs @ ys) c u =
     (case NewClient_opts xs c u of
        Return (Inr (c', u')) \<Rightarrow> NewClient_opts ys c' u'
      | other \<Rightarrow> other)"
    by (rule NewClient_opts_append)
  show ?thesis
    unfolding NewClient_def
    by (simp add: opts WithTimeout_def WithBaseURL_def WithHTTPClient_def)
qed

text \<open>
  Claim C7. The interceptor built for \<open>apiKey\<close> returns a nil error and leaves the header
  \<open>X-API-Key\<close> of the request set to \<open>apiKey\<close> alone, for every context and every
  request, whatever its method, URL and earlier headers. Every client that \<open>NewClient\<close>
  returns comes from the generated constructor called with that interceptor as its
  request editor, so it is the same for all service facades of the client.
\<close>

theorem interceptor_sets_api_key:
  "snd (authInterceptor canon apiKey ctx req) = None
   \<and> Header_Get canon apiKeyHeader (Header (fst (authInterceptor canon apiKey ctx req))) = apiKey
   \<and> Header (fst (authInterceptor canon apiKey ctx req)) (canon ''X-API-Key'') = Some [apiKey]
   \<and> (NewClient gen canon apiKey opts = Return (Some c, None) \<longrightarrow>
        (\<exists>baseURL httpClient.
           gen baseURL httpClient (authInterceptor canon apiKey) = (internalClient c, None)))"
proof -
  have "\<exists>baseURL httpClient.
          gen baseURL httpClient (authInterceptor canon apiKey) = (internalClient c, None)"
    if "NewClient gen canon apiKey opts = Return (Some c, None)"
    using that unfolding NewClient_def
    by (auto split: exec.splits sum.splits prod.splits option.splits) blast
  then show ?thesis
    by (simp add: authInterceptor_def Header_Get_def Header_Set_def apiKeyHeader_def)
qed

theorem interceptor_sets_api_key_witness:
  "NewClient (\<lambda>baseURL httpClient editor. (Some (baseURL, httpClient, editor ()), None))
     id ''secret'' [] =
     Return (Some \<lparr>internalClient =
        Some (defaultBaseURL,
              \<lparr>Transport = None, CheckRedirect = None, Jar = None, Timeout = 30 * Second\<rparr>,
              authInterceptor id ''secret'' ())\<rparr>, None)
   \<and> Header_Get id apiKeyHeader
        (Header (fst (authInterceptor id ''secret'' ()
           \<lparr>Method = ''GET'', URL = ''/status'', Header = Map.empty\<rparr>))) = ''secret''"
  using interceptor_sets_api_key
    [where canon = id and apiKey = "''secret''" and ctx = "()"
       and req = "\<lparr>Method = ''GET'', URL = ''/status'', Header = Map.empty\<rparr>"
       and gen = "\<lambda>baseURL httpClient editor. (Some (baseURL, httpClient, editor ()), None)"
       and opts = "[]"
       and c = "\<lparr>internalClient =
                  Some (defaultBaseURL,
                        \<lparr>Transport = None, CheckRedirect = None, Jar = None,
                           Timeout = 30 * Second\<rparr>,
                        authInterceptor id ''secret'' ())\<rparr>"]
  by (simp add: NewClient_def)

text \<open>
  Claim C8. When the options before some option all succeed and that option returns an
  error \<open>e\<close>, \<open>NewClient\<close> returns nil and an error that wraps \<open>e\<close> under "failed to apply
  option", whatever options come after: they are not run. Whenever \<open>NewClient\<close> returns an
  error, the client it returns is nil.
\<close>

theorem option_failure_aborts:
  "(NewClient_opts before
       \<lparr>Transport = None, CheckRedirect = None, Jar = None, Timeout = 30 * Second\<rparr>
       defaultBaseURL = Return (Inr (httpClient, baseURL))
     \<longrightarrow> opt httpClient baseURL = Return (httpClient', baseURL', Some e)
     \<longrightarrow> NewClient gen canon apiKey (before @ opt # after)
           = Return (None, Some (WrapError (''failed to apply option: '' @ Error e) e))
         \<and> Unwrap (WrapError (''failed to apply option: '' @ Error e) e) = Some e)
   \<and> (NewClient gen canon apiKey opts = Return (c, Some err) \<longrightarrow> c = None)"
proof -
  have "c = None" if "NewClient gen canon apiKey opts = Return (c, Some err)"
    using that unfolding NewClient_def
    by (auto split: exec.splits sum.splits prod.splits option.splits)
  then show ?thesis
    by (simp add: NewClient_def NewClient_opts_append fmt_Errorf_w_def)
qed

theorem option_failure_aborts_witness:
  "NewClient_opts [WithTimeout 5]
       \<lparr>Transport = None, CheckRedirect = None, Jar = None, Timeout = 30 * Second\<rparr>
       defaultBaseURL
     = Return (Inr (\<lparr>Transport = None, CheckRedirect = None, Jar = None, Timeout = 5\<rparr>,
                    defaultBaseURL))
   \<and> NewClient (\<lambda>baseURL httpClient editor. (Some (baseURL, httpClient, editor ()), None))
         id ''secret''
         ([WithTimeout 5]
          @ (\<lambda>c u. Return (c, u, Some (ErrorString ''bad option'')))
          # [WithHTTPClient None])
       = Return (None, Some (WrapError ''failed to apply option: bad option''
                               (ErrorString ''bad option'')))"
  using option_failure_aborts
    [where before = "[WithTimeout 5]"
       and httpClient = "\<lparr>Transport = None, CheckRedirect = None, Jar = None, Timeout = 5\<rparr>"
       and baseURL = defaultBaseURL
       and opt = "\<lambda>c u. Return (c, u, Some (ErrorString ''bad option''))"
       and httpClient' = "\<lparr>Transport = None, CheckRedirect = None, Jar = None, Timeout = 5\<rparr>"
       and baseURL' = defaultBaseURL
       and e = "ErrorString ''bad option''"
       and gen = "\<lambda>baseURL httpClient editor. (Some (baseURL, httpClient, editor ()), None)"
       and canon = id and apiKey = "''secret''"
       and after = "[WithHTTPClient None]"
       and opts = "[WithTimeout 5]
                   @ (\<lambda>c u. Return (c, u, Some (ErrorString ''bad option'')))
                   # [WithHTTPClient None]"
       and c = None
       and err = "WrapError ''failed to apply option: bad option'' (ErrorString ''bad option'')"]
  by (simp add: WithTimeout_def)

text \<open>
  Claim C9. Without options, \<open>NewClient\<close> hands the generated constructor the base URL
  "https://api.depscian.tech/v2" and an HTTP client whose timeout is 30 seconds
  (30 000 000 000 nanoseconds), and returns the client built from what the constructor
  returns.
\<close>

theorem default_configuration:
  "NewClient gen canon apiKey [] =
     (case gen ''https://api.depscian.tech/v2''
             \<lparr>Transport = None, CheckRedirect = None, Jar = None, Timeout = 30 * Second\<rparr>
             (authInterceptor canon apiKey) of
        (g, Some err) \<Rightarrow>
          Return (None, Some (fmt_Errorf_w ''failed to create API client: '' err))
      | (g, None) \<Rightarrow> Return (Some \<lparr>internalClient = g\<rparr>, None))
   \<and> defaultBaseURL = ''https://api.depscian.tech/v2''
   \<and> sint (30 * Second) = 30 * 1000000000"
  by (simp add: NewClient_def defaultBaseURL_def Second_def)

section \<open>Properties of the service facades\<close>

text \<open>
  Claim C2, as stated, fails. When the endpoint call of \<open>Player.Find\<close> fails with a
  transport error, the caller receives that very error: it is not wrapped with "client
  execution error", and unwrapping it does not yield it.
\<close>

theorem facade_transport_error_counterexample:
  "PlayerService_Find (endpoint_outcome (None, Some (ErrorString ''dial tcp: i/o timeout'')))
       \<lparr>internalClient = Some (0::nat)\<rparr> () 1 ''Nick''
     = Return (None :: nat option, Some (ErrorString ''dial tcp: i/o timeout''))
   \<and> PlayerService_Find (endpoint_outcome (None, Some (ErrorString ''dial tcp: i/o timeout'')))
       \<lparr>internalClient = Some (0::nat)\<rparr> () 1 ''Nick''
     \<noteq> Return (None :: nat option,
          Some (fmt_Errorf_w ''client execution error: '' (ErrorString ''dial tcp: i/o timeout'')))
   \<and> Unwrap (ErrorString ''dial tcp: i/o timeout'') \<noteq> Some (ErrorString ''dial tcp: i/o timeout'')"
  by (simp add: PlayerService_Find_def endpoint_outcome_def fmt_Errorf_w_def)

text \<open>
  Claim C2, amended. Every service facade method returns a non-nil transport error of
  its endpoint call to the caller as it is, with a nil value and without going through
  \<open>unpackResponse\<close>; when the endpoint call returns an envelope and a nil error, the
  method returns what \<open>unpackResponse\<close> makes of the decoded body and the raw response
  of the envelope.
\<close>

theorem facade_returns_transport_error:
  "(GetServerAdminsV2AdminsGetWithResponse (internalClient c) ctx (GetServerAdminsV2AdminsGetParams serverID) = (resp, Some e)
      \<longrightarrow> AdminsService_Get GetServerAdminsV2AdminsGetWithResponse c ctx serverID = Return (None, Some e))
   \<and> (GetServerAdminsV2AdminsGetWithResponse (internalClient c) ctx (GetServerAdminsV2AdminsGetParams serverID) = (Some r, None)
      \<longrightarrow> AdminsService_Get GetServerAdminsV2AdminsGetWithResponse c ctx serverID
          = unpackResponse (JSON200 r) (HTTPResponse r) None)
   \<and> (GetFamiliesV2FamiliesGetWithResponse (internalClient c) ctx (GetFamiliesV2FamiliesGetParams serverID) = (resp, Some e)
      \<longrightarrow> FamiliesService_List GetFamiliesV2FamiliesGetWithResponse c ctx serverID = Return (None, Some e))
   \<and> (GetFamiliesV2FamiliesGetWithResponse (internalClient c) ctx (GetFamiliesV2FamiliesGetParams serverID) = (Some r, None)
      \<longrightarrow> FamiliesService_List GetFamiliesV2FamiliesGetWithResponse c ctx serverID
          = unpackResponse (JSON200 r) (HTTPResponse r) None)
   \<and> (GetFamilyV2FamilyGetWithResponse (internalClient c) ctx (GetFamilyV2FamilyGetParams serverID famID) = (resp, Some e)
      \<longrightarrow> FamiliesService_Get GetFamilyV2FamilyGetWithResponse c ctx serverID famID = Return (None, Some e))
   \<and> (GetFamilyV2FamilyGetWithResponse (internalClient c) ctx (GetFamilyV2FamilyGetParams serverID famID) = (Some r, None)
      \<longrightarrow> FamiliesService_Get GetFamilyV2FamilyGetWithResponse c ctx serverID famID
          = unpackResponse (JSON200 r) (HTTPResponse r) None)
   \<and> (GetFractionsListV2FractionsGetWithResponse (internalClient c) ctx (GetFractionsListV2FractionsGetParams serverID) = (resp, Some e)
      \<longrightarrow> FractionsService_List GetFractionsListV2FractionsGetWithResponse c ctx serverID = Return (None, Some e))
   \<and> (GetFractionsListV2FractionsGetWithResponse (internalClient c) ctx (GetFractionsListV2FractionsGetParams serverID) = (Some r, None)
      \<longrightarrow> FractionsService_List GetFractionsListV2FractionsGetWithResponse c ctx serverID
          = unpackResponse (JSON200 r) (HTTPResponse r) None)
   \<and> (GetFractionMembersV2FractionGetWithResponse (internalClient c) ctx (GetFractionMembersV2FractionGetParams serverID fractionID) = (resp, Some e)
      \<longrightarrow> FractionsService_GetMembers GetFractionMembersV2FractionGetWithResponse c ctx serverID fractionID = Return (None, Some e))
   \<and> (GetFractionMembersV2FractionGetWithResponse (internalClient c) ctx (GetFractionMembersV2FractionGetParams serverID fractionID) = (Some r, None)
      \<longrightarrow> FractionsService_GetMembers GetFractionMembersV2FractionGetWithResponse c ctx serverID fractionID
          = unpackResponse (JSON200 r) (HTTPResponse r) None)
   \<and> (GetGhettoListV2GhettoGetWithResponse (internalClient c) ctx (GetGhettoListV2GhettoGetParams serverID) = (resp, Some e)
      \<longrightarrow> GhettoService_Get GetGhettoListV2GhettoGetWithResponse c ctx serverID = Return (None, Some e))
   \<and> (GetGhettoListV2GhettoGetWithResponse (internalClient c) ctx (GetGhettoListV2GhettoGetParams serverID) = (Some r, None)
      \<longrightarrow> GhettoService_Get GetGhettoListV2GhettoGetWithResponse c ctx serverID
          = unpackResponse (JSON200 r) (HTTPResponse r) None)
   \<and> (GetLeadersListV2LeadersGetWithResponse (internalClient c) ctx (GetLeadersListV2LeadersGetParams serverID) = (resp, Some e)
      \<longrightarrow> LeadershipService_GetLeaders GetLeadersListV2LeadersGetWithResponse c ctx serverID = Return (None, Some e))
   \<and> (GetLeadersListV2LeadersGetWithResponse (internalClient c) ctx (GetLeadersListV2LeadersGetParams serverID) = (Some r, None)
      \<longrightarrow> LeadershipService_GetLeaders GetLeadersListV2LeadersGetWithResponse c ctx serverID
          = unpackResponse (JSON200 r) (HTTPResponse r) None)
   \<and> (GetSubleadersListV2SubleadersGetWithResponse (internalClient c) ctx (GetSubleadersListV2SubleadersGetParams serverID) = (resp, Some e)
      \<longrightarrow> LeadershipService_GetSubleaders GetSubleadersListV2SubleadersGetWithResponse c ctx serverID = Return (None, Some e))
   \<and> (GetSubleadersListV2SubleadersGetWithResponse (internalClient c) ctx (GetSubleadersListV2SubleadersGetParams serverID) = (Some r, None)
      \<longrightarrow> LeadershipService_GetSubleaders GetSubleadersListV2SubleadersGetWithResponse c ctx serverID
          = unpackResponse (JSON200 r) (HTTPResponse r) None)
   \<and> (GetPropertyMapWithPoiV2MapGetWithResponse (internalClient c) ctx (GetPropertyMapWithPoiV2MapGetParams serverID) = (resp, Some e)
      \<longrightarrow> MapService_Get GetPropertyMapWithPoiV2MapGetWithResponse c ctx serverID = Return (None, Some e))
   \<and> (GetPropertyMapWithPoiV2MapGetWithResponse (internalClient c) ctx (GetPropertyMapWithPoiV2MapGetParams serverID) = (Some r, None)
      \<longrightarrow> MapService_Get GetPropertyMapWithPoiV2MapGetWithResponse c ctx serverID
          = unpackResponse (JSON200 r) (HTTPResponse r) None)
   \<and> (GetOnlineListV2OnlineGetWithResponse (internalClient c) ctx (GetOnlineListV2OnlineGetParams serverID) = (resp, Some e)
      \<longrightarrow> OnlineService_Get GetOnlineListV2OnlineGetWithResponse c ctx serverID = Return (None, Some e))
   \<and> (GetOnlineListV2OnlineGetWithResponse (internalClient c) ctx (GetOnlineListV2OnlineGetParams serverID) = (Some r, None)
      \<longrightarrow> OnlineService_Get GetOnlineListV2OnlineGetWithResponse c ctx serverID
          = unpackResponse (JSON200 r) (HTTPResponse r) None)
   \<and> (FindPlayerV2PlayerFindGetWithResponse (internalClient c) ctx (FindPlayerV2PlayerFindGetParams serverID nickname) = (resp, Some e)
      \<longrightarrow> PlayerService_Find FindPlayerV2PlayerFindGetWithResponse c ctx serverID nickname = Return (None, Some e))
   \<and> (FindPlayerV2PlayerFindGetWithResponse (internalClient c) ctx (FindPlayerV2PlayerFindGetParams serverID nickname) = (Some r, None)
      \<longrightarrow> PlayerService_Find FindPlayerV2PlayerFindGetWithResponse c ctx serverID nickname
          = unpackResponse (JSON200 r) (HTTPResponse r) None)
   \<and> (GetSobesListV2SobesGetWithResponse (internalClient c) ctx (GetSobesListV2SobesGetParams serverID) = (resp, Some e)
      \<longrightarrow> SobesService_Get GetSobesListV2SobesGetWithResponse c ctx serverID = Return (None, Some e))
   \<and> (GetSobesListV2SobesGetWithResponse (internalClient c) ctx (GetSobesListV2SobesGetParams serverID) = (Some r, None)
      \<longrightarrow> SobesService_Get GetSobesListV2SobesGetWithResponse c ctx serverID
          = unpackResponse (JSON200 r) (HTTPResponse r) None)
   \<and> (GetStatusV2StatusGetWithResponse (internalClient c) ctx = (resp, Some e)
      \<longrightarrow> StatusService_Get GetStatusV2StatusGetWithResponse c ctx = Return (None, Some e))
   \<and> (GetStatusV2StatusGetWithResponse (internalClient c) ctx = (Some r, None)
      \<longrightarrow> StatusService_Get GetStatusV2StatusGetWithResponse c ctx
          = unpackResponse (JSON200 r) (HTTPResponse r) None)"
  by (simp add: AdminsService_Get_def FamiliesService_List_def FamiliesService_Get_def FractionsService_List_def FractionsService_GetMembers_def GhettoService_Get_def LeadershipService_GetLeaders_def LeadershipService_GetSubleaders_def MapService_Get_def OnlineService_Get_def PlayerService_Find_def SobesService_Get_def StatusService_Get_def)

theorem facade_returns_transport_error_witness:
  "AdminsService_Get (endpoint_outcome (None :: nat Response option, Some (ErrorString ''dial tcp: i/o timeout''))) \<lparr>internalClient = Some (0::nat)\<rparr> () 1
       = Return (None, Some (ErrorString ''dial tcp: i/o timeout''))
   \<and> AdminsService_Get (endpoint_outcome (Some \<lparr>JSON200 = Some (1::nat), HTTPResponse = Some \<lparr>Status = ''200 OK'', StatusCode = 200\<rparr>\<rparr>, None :: go_error option)) \<lparr>internalClient = Some (0::nat)\<rparr> () 1
       = Return (Some 1, None)
   \<and> FamiliesService_List (endpoint_outcome (None :: nat Response option, Some (ErrorString ''dial tcp: i/o timeout''))) \<lparr>internalClient = Some (0::nat)\<rparr> () 1
       = Return (None, Some (ErrorString ''dial tcp: i/o timeout''))
   \<and> FamiliesService_List (endpoint_outcome (Some \<lparr>JSON200 = Some (1::nat), HTTPResponse = Some \<lparr>Status = ''200 OK'', StatusCode = 200\<rparr>\<rparr>, None :: go_error option)) \<lparr>internalClient = Some (0::nat)\<rparr> () 1
       = Return (Some 1, None)
   \<and> FamiliesService_Get (endpoint_outcome (None :: nat Response option, Some (ErrorString ''dial tcp: i/o timeout''))) \<lparr>internalClient = Some (0::nat)\<rparr> () 1 7
       = Return (None, Some (ErrorString ''dial tcp: i/o timeout''))
   \<and> FamiliesService_Get (endpoint_outcome (Some \<lparr>JSON200 = Some (1::nat), HTTPResponse = Some \<lparr>Status = ''200 OK'', StatusCode = 200\<rparr>\<rparr>, None :: go_error option)) \<lparr>internalClient = Some (0::nat)\<rparr> () 1 7
       = Return (Some 1, None)
   \<and> FractionsService_List (endpoint_outcome (None :: nat Response option, Some (ErrorString ''dial tcp: i/o timeout''))) \<lparr>internalClient = Some (0::nat)\<rparr> () 1
       = Return (None, Some (ErrorString ''dial tcp: i/o timeout''))
   \<and> FractionsService_List (endpoint_outcome (Some \<lparr>JSON200 = Some (1::nat), HTTPResponse = Some \<lparr>Status = ''200 OK'', StatusCode = 200\<rparr>\<rparr>, None :: go_error option)) \<lparr>internalClient = Some (0::nat)\<rparr> () 1
       = Return (Some 1, None)
   \<and> FractionsService_GetMembers (endpoint_outcome (None :: nat Response option, Some (ErrorString ''dial tcp: i/o timeout''))) \<lparr>internalClient = Some (0::nat)\<rparr> () 1 ''lspd''
       = Return (None, Some (ErrorString ''dial tcp: i/o timeout''))
   \<and> FractionsService_GetMembers (endpoint_outcome (Some \<lparr>JSON200 = Some (1::nat), HTTPResponse = Some \<lparr>Status = ''200 OK'', StatusCode = 200\<rparr>\<rparr>, None :: go_error option)) \<lparr>internalClient = Some (0::nat)\<rparr> () 1 ''lspd''
       = Return (Some 1, None)
   \<and> GhettoService_Get (endpoint_outcome (None :: nat Response option, Some (ErrorString ''dial tcp: i/o timeout''))) \<lparr>internalClient = Some (0::nat)\<rparr> () 1
       = Return (None, Some (ErrorString ''dial tcp: i/o timeout''))
   \<and> GhettoService_Get (endpoint_outcome (Some \<lparr>JSON200 = Some (1::nat), HTTPResponse = Some \<lparr>Status = ''200 OK'', StatusCode = 200\<rparr>\<rparr>, None :: go_error option)) \<lparr>internalClient = Some (0::nat)\<rparr> () 1
       = Return (Some 1, None)
   \<and> LeadershipService_GetLeaders (endpoint_outcome (None :: nat Response option, Some (ErrorString ''dial tcp: i/o timeout''))) \<lparr>internalClient = Some (0::nat)\<rparr> () 1
       = Return (None, Some (ErrorString ''dial tcp: i/o timeout''))
   \<and> LeadershipService_GetLeaders (endpoint_outcome (Some \<lparr>JSON200 = Some (1::nat), HTTPResponse = Some \<lparr>Status = ''200 OK'', StatusCode = 200\<rparr>\<rparr>, None :: go_error option)) \<lparr>internalClient = Some (0::nat)\<rparr> () 1
       = Return (Some 1, None)
   \<and> LeadershipService_GetSubleaders (endpoint_outcome (None :: nat Response option, Some (ErrorString ''dial tcp: i/o timeout''))) \<lparr>internalClient = Some (0::nat)\<rparr> () 1
       = Return (None, Some (ErrorString ''dial tcp: i/o timeout''))
   \<and> LeadershipService_GetSubleaders (endpoint_outcome (Some \<lparr>JSON200 = Some (1::nat), HTTPResponse = Some \<lparr>Status = ''200 OK'', StatusCode = 200\<rparr>\<rparr>, None :: go_error option)) \<lparr>internalClient = Some (0::nat)\<rparr> () 1
       = Return (Some 1, None)
   \<and> MapService_Get (endpoint_outcome (None :: nat Response option, Some (ErrorString ''dial tcp: i/o timeout''))) \<lparr>internalClient = Some (0::nat)\<rparr> () 1
       = Return (None, Some (ErrorString ''dial tcp: i/o timeout''))
   \<and> MapService_Get (endpoint_outcome (Some \<lparr>JSON200 = Some (1::nat), HTTPResponse = Some \<lparr>Status = ''200 OK'', StatusCode = 200\<rparr>\<rparr>, None :: go_error option)) \<lparr>internalClient = Some (0::nat)\<rparr> () 1
       = Return (Some 1, None)
   \<and> OnlineService_Get (endpoint_outcome (None :: nat Response option, Some (ErrorString ''dial tcp: i/o timeout''))) \<lparr>internalClient = Some (0::nat)\<rparr> () 1
       = Return (None, Some (ErrorString ''dial tcp: i/o timeout''))
   \<and> OnlineService_Get (endpoint_outcome (Some \<lparr>JSON200 = Some (1::nat), HTTPResponse = Some \<lparr>Status = ''200 OK'', StatusCode = 200\<rparr>\<rparr>, None :: go_error option)) \<lparr>internalClient = Some (0::nat)\<rparr> () 1
       = Return (Some 1, None)
   \<and> PlayerService_Find (endpoint_outcome (None :: nat Response option, Some (ErrorString ''dial tcp: i/o timeout''))) \<lparr>internalClient = Some (0::nat)\<rparr> () 1 ''Nick''
       = Return (None, Some (ErrorString ''dial tcp: i/o timeout''))
   \<and> PlayerService_Find (endpoint_outcome (Some \<lparr>JSON200 = Some (1::nat), HTTPResponse = Some \<lparr>Status = ''200 OK'', StatusCode = 200\<rparr>\<rparr>, None :: go_error option)) \<lparr>internalClient = Some (0::nat)\<rparr> () 1 ''Nick''
       = Return (Some 1, None)
   \<and> SobesService_Get (endpoint_outcome (None :: nat Response option, Some (ErrorString ''dial tcp: i/o timeout''))) \<lparr>internalClient = Some (0::nat)\<rparr> () 1
       = Return (None, Some (ErrorString ''dial tcp: i/o timeout''))
   \<and> SobesService_Get (endpoint_outcome (Some \<lparr>JSON200 = Some (1::nat), HTTPResponse = Some \<lparr>Status = ''200 OK'', StatusCode = 200\<rparr>\<rparr>, None :: go_error option)) \<lparr>internalClient = Some (0::nat)\<rparr> () 1
       = Return (Some 1, None)
   \<and> StatusService_Get (\<lambda>g ctx. (None :: nat Response option, Some (ErrorString ''dial tcp: i/o timeout''))) \<lparr>internalClient = Some (0::nat)\<rparr> ()
       = Return (None, Some (ErrorString ''dial tcp: i/o timeout''))
   \<and> StatusService_Get (\<lambda>g ctx. (Some \<lparr>JSON200 = Some (1::nat), HTTPResponse = Some \<lparr>Status = ''200 OK'', StatusCode = 200\<rparr>\<rparr>, None :: go_error option)) \<lparr>internalClient = Some (0::nat)\<rparr> ()
       = Return (Some 1, None)"
  using facade_returns_transport_error
    [where GetServerAdminsV2AdminsGetWithResponse = "endpoint_outcome (None :: nat Response option, Some (ErrorString ''dial tcp: i/o timeout''))"
        and GetFamiliesV2FamiliesGetWithResponse = "endpoint_outcome (None :: nat Response option, Some (ErrorString ''dial tcp: i/o timeout''))"
        and GetFamilyV2FamilyGetWithResponse = "endpoint_outcome (None :: nat Response option, Some (ErrorString ''dial tcp: i/o timeout''))"
        and GetFractionsListV2FractionsGetWithResponse = "endpoint_outcome (None :: nat Response option, Some (ErrorString ''dial tcp: i/o timeout''))"
        and GetFractionMembersV2FractionGetWithResponse = "endpoint_outcome (None :: nat Response option, Some (ErrorString ''dial tcp: i/o timeout''))"
        and GetGhettoListV2GhettoGetWithResponse = "endpoint_outcome (None :: nat Response option, Some (ErrorString ''dial tcp: i/o timeout''))"
        and GetLeadersListV2LeadersGetWithResponse = "endpoint_outcome (None :: nat Response option, Some (ErrorString ''dial tcp: i/o timeout''))"
        and GetSubleadersListV2SubleadersGetWithResponse = "endpoint_outcome (None :: nat Response option, Some (ErrorString ''dial tcp: i/o timeout''))"
        and GetPropertyMapWithPoiV2MapGetWithResponse = "endpoint_outcome (None :: nat Response option, Some (ErrorString ''dial tcp: i/o timeout''))"
        and GetOnlineListV2OnlineGetWithResponse = "endpoint_outcome (None :: nat Response option, Some (ErrorString ''dial tcp: i/o timeout''))"
        and FindPlayerV2PlayerFindGetWithResponse = "endpoint_outcome (None :: nat Response option, Some (ErrorString ''dial tcp: i/o timeout''))"
        and GetSobesListV2SobesGetWithResponse = "endpoint_outcome (None :: nat Response option, Some (ErrorString ''dial tcp: i/o timeout''))"
        and GetStatusV2StatusGetWithResponse = "\<lambda>g ctx. (None :: nat Response option, Some (ErrorString ''dial tcp: i/o timeout''))"
        and c = "\<lparr>internalClient = Some (0::nat)\<rparr>"
        and ctx = "()"
        and serverID = 1
        and famID = 7
        and fractionID = "''lspd''"
        and nickname = "''Nick''"
        and resp = "None"
        and e = "ErrorString ''dial tcp: i/o timeout''"]
    facade_returns_transport_error
    [where GetServerAdminsV2AdminsGetWithResponse = "endpoint_outcome (Some \<lparr>JSON200 = Some (1::nat), HTTPResponse = Some \<lparr>Status = ''200 OK'', StatusCode = 200\<rparr>\<rparr>, None :: go_error option)"
        and GetFamiliesV2FamiliesGetWithResponse = "endpoint_outcome (Some \<lparr>JSON200 = Some (1::nat), HTTPResponse = Some \<lparr>Status = ''200 OK'', StatusCode = 200\<rparr>\<rparr>, None :: go_error option)"
        and GetFamilyV2FamilyGetWithResponse = "endpoint_outcome (Some \<lparr>JSON200 = Some (1::nat), HTTPResponse = Some \<lparr>Status = ''200 OK'', StatusCode = 200\<rparr>\<rparr>, None :: go_error option)"
        and GetFractionsListV2FractionsGetWithResponse = "endpoint_outcome (Some \<lparr>JSON200 = Some (1::nat), HTTPResponse = Some \<lparr>Status = ''200 OK'', StatusCode = 200\<rparr>\<rparr>, None :: go_error option)"
        and GetFractionMembersV2FractionGetWithResponse = "endpoint_outcome (Some \<lparr>JSON200 = Some (1::nat), HTTPResponse = Some \<lparr>Status = ''200 OK'', StatusCode = 200\<rparr>\<rparr>, None :: go_error option)"
        and GetGhettoListV2GhettoGetWithResponse = "endpoint_outcome (Some \<lparr>JSON200 = Some (1::nat), HTTPResponse = Some \<lparr>Status = ''200 OK'', StatusCode = 200\<rparr>\<rparr>, None :: go_error option)"
        and GetLeadersListV2LeadersGetWithResponse = "endpoint_outcome (Some \<lparr>JSON200 = Some (1::nat), HTTPResponse = Some \<lparr>Status = ''200 OK'', StatusCode = 200\<rparr>\<rparr>, None :: go_error option)"
        and GetSubleadersListV2SubleadersGetWithResponse = "endpoint_outcome (Some \<lparr>JSON200 = Some (1::nat), HTTPResponse = Some \<lparr>Status = ''200 OK'', StatusCode = 200\<rparr>\<rparr>, None :: go_error option)"
        and GetPropertyMapWithPoiV2MapGetWithResponse = "endpoint_outcome (Some \<lparr>JSON200 = Some (1::nat), HTTPResponse = Some \<lparr>Status = ''200 OK'', StatusCode = 200\<rparr>\<rparr>, None :: go_error option)"
        and GetOnlineListV2OnlineGetWithResponse = "endpoint_outcome (Some \<lparr>JSON200 = Some (1::nat), HTTPResponse = Some \<lparr>Status = ''200 OK'', StatusCode = 200\<rparr>\<rparr>, None :: go_error option)"
        and FindPlayerV2PlayerFindGetWithResponse = "endpoint_outcome (Some \<lparr>JSON200 = Some (1::nat), HTTPResponse = Some \<lparr>Status = ''200 OK'', StatusCode = 200\<rparr>\<rparr>, None :: go_error option)"
        and GetSobesListV2SobesGetWithResponse = "endpoint_outcome (Some \<lparr>JSON200 = Some (1::nat), HTTPResponse = Some \<lparr>Status = ''200 OK'', StatusCode = 200\<rparr>\<rparr>, None :: go_error option)"
        and GetStatusV2StatusGetWithResponse = "\<lambda>g ctx. (Some \<lparr>JSON200 = Some (1::nat), HTTPResponse = Some \<lparr>Status = ''200 OK'', StatusCode = 200\<rparr>\<rparr>, None :: go_error option)"
        and c = "\<lparr>internalClient = Some (0::nat)\<rparr>"
        and ctx = "()"
        and serverID = 1
        and famID = 7
        and fractionID = "''lspd''"
        and nickname = "''Nick''"
        and r = "\<lparr>JSON200 = Some (1::nat), HTTPResponse = Some \<lparr>Status = ''200 OK'', StatusCode = 200\<rparr>\<rparr>"]
  by (simp add: endpoint_outcome_def unpackResponse_def StatusNotFound_def)

end
